theory Spec2Isabelle
  imports
    Main
    "HOL-Library.Char_ord"
    "HOL-Library.List_Lexorder"
    "HOL-Library.Product_Lexorder"
    "HOL-Library.AList"
    "HOL-Library.Multiset"
begin

section \<open>Values of the host language\<close>

text \<open>
  The fields of \<open>config.configurable\<close> are untyped in the source. The code tells three
  cases apart (\<open>undefined\<close>, \<open>null\<close>, a string), so the model keeps all three.
  Strings are byte strings; their order is the bytewise lexicographic order, which is the
  order of the store's default collation.
\<close>

datatype jsstr = Undefined | Null | Str string

fun truthy :: "jsstr \<Rightarrow> bool" where
  "truthy (Str s) = (s \<noteq> [])"
| "truthy Undefined = False"
| "truthy Null = False"

text \<open>The operator \<open>a ?? b\<close>: \<open>b\<close> replaces \<open>undefined\<close> and \<open>null\<close>.\<close>

fun nullish_or :: "jsstr \<Rightarrow> jsstr \<Rightarrow> jsstr" where
  "nullish_or (Str s) d = Str s"
| "nullish_or Undefined d = d"
| "nullish_or Null d = d"

text \<open>A destructuring default \<open>{ x = d }\<close>: \<open>d\<close> replaces \<open>undefined\<close> only.\<close>

fun default_or :: "jsstr \<Rightarrow> jsstr \<Rightarrow> jsstr" where
  "default_or Undefined d = d"
| "default_or x d = x"

datatype jsv =
    JNull
  | JBool bool
  | JNum int
  | JStr string
  | JArr "jsv list"
  | JObj "(string \<times> jsv) list"

datatype blob = ArrayBuffer string | Text string | NoBlob

fun blobToString :: "blob \<Rightarrow> string" where
  "blobToString (ArrayBuffer b) = b"
| "blobToString (Text s) = s"
| "blobToString NoBlob = []"

datatype error =
    EmptyConfiguration
  | MissingThreadId
  | MissingCheckpointId
  | MissingThreadOrCheckpointId
  | SerializationMismatch
  | BackendError

section \<open>Data model\<close>

record configurable =
  thread_id :: jsstr
  checkpoint_ns :: jsstr
  checkpoint_id :: jsstr

text \<open>A \<open>RunnableConfig\<close>: its \<open>configurable\<close> member may be missing.\<close>

type_synonym config = "configurable option"

record 'ver checkpoint =
  ckpt_v :: int
  ckpt_id :: string
  ckpt_ts :: string
  channel_values :: "(string \<times> jsv) list option"
  channel_versions :: "(string \<times> 'ver) list"
  versions_seen :: "(string \<times> (string \<times> 'ver) list) list"

record ('ver, 'm) checkpoint_tuple =
  tuple_checkpoint :: "'ver checkpoint"
  tuple_config :: config
  tuple_metadata :: 'm
  parentConfig :: "config option"
  pendingWrites :: "(string \<times> string \<times> jsv) list"

record checkpoint_row =
  row_thread_id :: string
  row_checkpoint_ns :: string
  row_checkpoint_id :: string
  row_parent_checkpoint_id :: "string option"
  row_type :: "string option"
  row_checkpoint :: blob
  row_metadata :: blob

record write_row =
  pw_thread_id :: string
  pw_checkpoint_ns :: string
  pw_checkpoint_id :: string
  pw_task_id :: string
  pw_idx :: nat
  pw_channel :: string
  pw_type :: "string option"
  pw_value :: "string option"

record PendingWriteColumn =
  col_task_id :: string
  col_channel :: string
  col_type :: "string option"
  col_value :: "string option"

record PendingSendColumn =
  send_type :: "string option"
  send_value :: "string option"

record MigrationRow =
  pending_sends :: "PendingSendColumn list"

text \<open>The content of the two tables that \<open>setup\<close> creates.\<close>

record store =
  checkpoints :: "checkpoint_row list"
  writes :: "write_row list"

definition empty_store :: store where
  "empty_store = \<lparr>checkpoints = [], writes = []\<rparr>"

text \<open>
  The collaborators the class receives or inherits: the serializer (\<open>dumpsTyped\<close>,
  \<open>loadsTyped\<close>, typed here per use site since the source casts the decoded value
  unchecked), \<open>copyCheckpoint\<close>, \<open>getNextVersion\<close>, the store's JSON extraction used by
  the metadata filter, \<open>JSON.stringify\<close>, and whether the executor rejects a statement
  whose number of arguments differs from its number of placeholders.
\<close>

record ('ver, 'm) env =
  dumps_checkpoint :: "'ver checkpoint \<Rightarrow> string \<times> string"
  loads_checkpoint :: "string \<Rightarrow> string \<Rightarrow> 'ver checkpoint"
  dumps_metadata :: "'m \<Rightarrow> string \<times> string"
  loads_metadata :: "string \<Rightarrow> string \<Rightarrow> 'm"
  dumps_value :: "jsv \<Rightarrow> string \<times> string"
  loads_value :: "string option \<Rightarrow> string option \<Rightarrow> jsv"
  copyCheckpoint :: "'ver checkpoint \<Rightarrow> 'ver checkpoint"
  getNextVersion :: "'ver option \<Rightarrow> 'ver"
  json_extract :: "blob \<Rightarrow> string \<Rightarrow> string option"
  stringify :: "jsv \<Rightarrow> string"
  strict_binding :: bool

definition TASKS :: string where
  "TASKS = ''__pregel_tasks''"

definition checkpointMetadataKeys :: "string list" where
  "checkpointMetadataKeys = [''source'', ''step'', ''parents'']"

definition validCheckpointMetadataKeys :: "string list" where
  "validCheckpointMetadataKeys = checkpointMetadataKeys"

text \<open>
  Modelled from the spec: \<open>maxChannelVersion\<close> of the checkpoint library, "the maximum
  across all existing channel versions"; a reduction without initial value, which the
  source calls on a non-empty list only.
\<close>

fun maxChannelVersion :: "('ver::linorder) list \<Rightarrow> 'ver" where
  "maxChannelVersion (x # xs) = fold (\<lambda>version mx. if version \<le> mx then mx else version) xs x"

section \<open>The store: tables, keys and statements\<close>

definition checkpoint_key :: "checkpoint_row \<Rightarrow> string \<times> string \<times> string" where
  "checkpoint_key r = (row_thread_id r, row_checkpoint_ns r, row_checkpoint_id r)"

definition write_key :: "write_row \<Rightarrow> string \<times> string \<times> string \<times> string \<times> nat" where
  "write_key w =
     (pw_thread_id w, pw_checkpoint_ns w, pw_checkpoint_id w, pw_task_id w, pw_idx w)"

text \<open>
  A statement without \<open>ORDER BY\<close> reads a table along its primary-key index: both tables
  declare a \<open>PRIMARY KEY\<close>, and every such statement of the source constrains a prefix of it.
\<close>

definition scan_checkpoints :: "store \<Rightarrow> checkpoint_row list" where
  "scan_checkpoints db = sort_key checkpoint_key (checkpoints db)"

definition scan_writes :: "store \<Rightarrow> write_row list" where
  "scan_writes db = sort_key write_key (writes db)"

text \<open>\<open>INSERT OR REPLACE\<close>: the row that holds the primary key, if any, gives way.\<close>

definition insert_or_replace_checkpoint :: "checkpoint_row \<Rightarrow> store \<Rightarrow> store" where
  "insert_or_replace_checkpoint r db =
     db\<lparr>checkpoints := filter (\<lambda>x. checkpoint_key x \<noteq> checkpoint_key r) (checkpoints db) @ [r]\<rparr>"

definition insert_or_replace_write :: "write_row \<Rightarrow> store \<Rightarrow> store" where
  "insert_or_replace_write w db =
     db\<lparr>writes := filter (\<lambda>x. write_key x \<noteq> write_key w) (writes db) @ [w]\<rparr>"

text \<open>\<open>ORDER BY checkpoint_id DESC\<close> and \<open>LIMIT\<close> (a negative limit is no limit).\<close>

definition order_by_checkpoint_id_desc :: "checkpoint_row list \<Rightarrow> checkpoint_row list" where
  "order_by_checkpoint_id_desc rows = rev (sort_key row_checkpoint_id rows)"

definition sql_limit :: "int \<Rightarrow> 'a list \<Rightarrow> 'a list" where
  "sql_limit n rows = (if n < 0 then rows else take (nat n) rows)"

text \<open>
  A bound parameter: \<open>null\<close> binds SQL \<open>NULL\<close> (\<open>None\<close>), to which no column compares
  equal; the client refuses \<open>undefined\<close>.
\<close>

fun bind_arg :: "jsstr \<Rightarrow> error + string option" where
  "bind_arg (Str s) = Inr (Some s)"
| "bind_arg Null = Inr None"
| "bind_arg Undefined = Inl BackendError"

definition sql_eq :: "string \<Rightarrow> string option \<Rightarrow> bool" where
  "sql_eq col a = (case a of None \<Rightarrow> False | Some s \<Rightarrow> col = s)"

definition sql_lt :: "string \<Rightarrow> string option \<Rightarrow> bool" where
  "sql_lt col a = (case a of None \<Rightarrow> False | Some s \<Rightarrow> col < s)"

text \<open>
  An aggregate statement without \<open>GROUP BY\<close> returns exactly one row, also when no row
  of the table matches; a trailing \<open>ORDER BY\<close> orders that single row.
\<close>

definition aggregate_row :: "'a list \<Rightarrow> 'a list list" where
  "aggregate_row matched = [matched]"

definition to_write_column :: "write_row \<Rightarrow> PendingWriteColumn" where
  "to_write_column w =
     \<lparr>col_task_id = pw_task_id w, col_channel = pw_channel w,
      col_type = pw_type w, col_value = pw_value w\<rparr>"

definition to_send_column :: "write_row \<Rightarrow> PendingSendColumn" where
  "to_send_column w = \<lparr>send_type = pw_type w, send_value = pw_value w\<rparr>"

text \<open>The two correlated subqueries of the \<open>SELECT\<close> in \<open>getTuple\<close> and \<open>list\<close>.\<close>

definition owns_write :: "checkpoint_row \<Rightarrow> write_row \<Rightarrow> bool" where
  "owns_write r pw \<longleftrightarrow>
     pw_thread_id pw = row_thread_id r \<and>
     pw_checkpoint_ns pw = row_checkpoint_ns r \<and>
     pw_checkpoint_id pw = row_checkpoint_id r"

definition pending_writes_subquery :: "store \<Rightarrow> checkpoint_row \<Rightarrow> PendingWriteColumn list" where
  "pending_writes_subquery db r = map to_write_column (filter (owns_write r) (scan_writes db))"

definition pending_sends_subquery :: "store \<Rightarrow> checkpoint_row \<Rightarrow> PendingSendColumn list" where
  "pending_sends_subquery db r =
     map to_send_column
       (filter (\<lambda>ps. pw_thread_id ps = row_thread_id r \<and>
                     pw_checkpoint_ns ps = row_checkpoint_ns r \<and>
                     sql_eq (pw_checkpoint_id ps) (row_parent_checkpoint_id r) \<and>
                     pw_channel ps = TASKS)
          (scan_writes db))"

section \<open>migratePendingSends\<close>

definition migration_query :: "store \<Rightarrow> string \<Rightarrow> string \<Rightarrow> MigrationRow list" where
  "migration_query db threadId parentCheckpointId =
     map (\<lambda>matched. \<lparr>pending_sends = map to_send_column matched\<rparr>)
       (aggregate_row
          (filter (\<lambda>ps. pw_thread_id ps = threadId \<and>
                        pw_checkpoint_id ps = parentCheckpointId \<and>
                        pw_channel ps = TASKS)
             (scan_writes db)))"

definition migratePendingSends ::
  "('ver::linorder, 'm) env \<Rightarrow> store \<Rightarrow> 'ver checkpoint \<Rightarrow> string \<Rightarrow> string \<Rightarrow> 'ver checkpoint"
where
  "migratePendingSends e db checkpoint threadId parentCheckpointId =
     (case migration_query db threadId parentCheckpointId of
        [] \<Rightarrow> checkpoint
      | row # _ \<Rightarrow>
          let values0 = (case channel_values checkpoint of None \<Rightarrow> [] | Some cv \<Rightarrow> cv);
              sends = map (\<lambda>c. loads_value e (send_type c) (send_value c)) (pending_sends row);
              mutableCheckpoint =
                checkpoint\<lparr>channel_values := Some (AList.update TASKS (JArr sends) values0)\<rparr>;
              version =
                (if length (map fst (channel_versions mutableCheckpoint)) > 0
                 then maxChannelVersion (map snd (channel_versions mutableCheckpoint))
                 else getNextVersion e None)
          in mutableCheckpoint
               \<lparr>channel_versions := AList.update TASKS version (channel_versions mutableCheckpoint)\<rparr>)"

section \<open>Decoding a selected row\<close>

definition decode_pending_writes ::
  "('ver, 'm) env \<Rightarrow> PendingWriteColumn list \<Rightarrow> (string \<times> string \<times> jsv) list"
where
  "decode_pending_writes e cols =
     map (\<lambda>write.
            (col_task_id write, col_channel write,
             loads_value e
               (Some (case col_type write of None \<Rightarrow> ''json'' | Some t \<Rightarrow> t))
               (Some (case col_value write of None \<Rightarrow> [] | Some x \<Rightarrow> x))))
       cols"

definition row_type_or_json :: "checkpoint_row \<Rightarrow> string" where
  "row_type_or_json r = (case row_type r of None \<Rightarrow> ''json'' | Some t \<Rightarrow> t)"

definition decode_checkpoint ::
  "('ver::linorder, 'm) env \<Rightarrow> store \<Rightarrow> checkpoint_row \<Rightarrow> 'ver checkpoint"
where
  "decode_checkpoint e db r =
     (let checkpoint = loads_checkpoint e (row_type_or_json r) (blobToString (row_checkpoint r))
      in case row_parent_checkpoint_id r of
           None \<Rightarrow> checkpoint
         | Some parent \<Rightarrow>
             if ckpt_v checkpoint < 4
             then migratePendingSends e db checkpoint (row_thread_id r) parent
             else checkpoint)"

definition decode_metadata :: "('ver, 'm) env \<Rightarrow> checkpoint_row \<Rightarrow> 'm" where
  "decode_metadata e r = loads_metadata e (row_type_or_json r) (blobToString (row_metadata r))"

text \<open>\<open>row.parent_checkpoint_id ? {...} : undefined\<close>: an empty parent id gives no parent.\<close>

definition parent_config :: "checkpoint_row \<Rightarrow> jsstr \<Rightarrow> config option" where
  "parent_config r ns =
     (case row_parent_checkpoint_id r of
        None \<Rightarrow> None
      | Some p \<Rightarrow>
          if p = [] then None
          else Some (Some \<lparr>thread_id = Str (row_thread_id r), checkpoint_ns = ns,
                           checkpoint_id = Str p\<rparr>))"

section \<open>getTuple\<close>

definition config_or_empty :: "config \<Rightarrow> configurable" where
  "config_or_empty config =
     (case config of
        None \<Rightarrow> \<lparr>thread_id = Undefined, checkpoint_ns = Undefined, checkpoint_id = Undefined\<rparr>
      | Some c \<Rightarrow> c)"

definition getTuple_query ::
  "store \<Rightarrow> string option \<Rightarrow> string option \<Rightarrow> string option option \<Rightarrow> checkpoint_row list"
where
  "getTuple_query db a_thread a_ns a_id =
     (let partition =
            filter (\<lambda>r. sql_eq (row_thread_id r) a_thread \<and> sql_eq (row_checkpoint_ns r) a_ns)
              (scan_checkpoints db)
      in case a_id of
           Some a \<Rightarrow> filter (\<lambda>r. sql_eq (row_checkpoint_id r) a) partition
         | None \<Rightarrow> sql_limit 1 (order_by_checkpoint_id_desc partition))"

definition final_config :: "config \<Rightarrow> checkpoint_row \<Rightarrow> config" where
  "final_config config row =
     (let c = config_or_empty config
      in if \<not> truthy (checkpoint_id c)
         then Some \<lparr>thread_id = Str (row_thread_id row),
                    checkpoint_ns = default_or (checkpoint_ns c) (Str []),
                    checkpoint_id = Str (row_checkpoint_id row)\<rparr>
         else config)"

definition getTuple_result ::
  "('ver::linorder, 'm) env \<Rightarrow> store \<Rightarrow> config \<Rightarrow> checkpoint_row \<Rightarrow> ('ver, 'm) checkpoint_tuple"
where
  "getTuple_result e db config row =
     \<lparr>tuple_checkpoint = decode_checkpoint e db row,
      tuple_config = final_config config row,
      tuple_metadata = decode_metadata e row,
      parentConfig =
        parent_config row (default_or (checkpoint_ns (config_or_empty config)) (Str [])),
      pendingWrites = decode_pending_writes e (pending_writes_subquery db row)\<rparr>"

definition getTuple ::
  "('ver::linorder, 'm) env \<Rightarrow> store \<Rightarrow> config \<Rightarrow> error + ('ver, 'm) checkpoint_tuple option"
where
  "getTuple e db config =
     (let c = config_or_empty config;
          ns = default_or (checkpoint_ns c) (Str [])
      in case bind_arg (thread_id c) of
           Inl err \<Rightarrow> Inl err
         | Inr a_thread \<Rightarrow>
         (case bind_arg ns of
            Inl err \<Rightarrow> Inl err
          | Inr a_ns \<Rightarrow>
          (case (if truthy (checkpoint_id c) then map_sum id Some (bind_arg (checkpoint_id c))
                 else Inr None) of
             Inl err \<Rightarrow> Inl err
           | Inr a_id \<Rightarrow>
           (case getTuple_query db a_thread a_ns a_id of
              [] \<Rightarrow> Inr None
            | row # _ \<Rightarrow>
                if thread_id (config_or_empty (final_config config row)) = Undefined \<or>
                   checkpoint_id (config_or_empty (final_config config row)) = Undefined
                then Inl MissingThreadOrCheckpointId
                else Inr (Some (getTuple_result e db config row))))))"

section \<open>put, putWrites, deleteThread\<close>

definition put_row ::
  "string \<Rightarrow> jsstr \<Rightarrow> string \<Rightarrow> jsstr \<Rightarrow> string \<Rightarrow> string \<Rightarrow> string \<Rightarrow> checkpoint_row"
where
  "put_row t ns cid parent_checkpoint_id type1 serializedCheckpoint serializedMetadata =
     \<lparr>row_thread_id = t,
      row_checkpoint_ns = (case ns of Str n \<Rightarrow> n | Undefined \<Rightarrow> [] | Null \<Rightarrow> []),
      row_checkpoint_id = cid,
      row_parent_checkpoint_id =
        (case parent_checkpoint_id of Str p \<Rightarrow> Some p | Undefined \<Rightarrow> None | Null \<Rightarrow> None),
      row_type = Some type1,
      row_checkpoint = ArrayBuffer serializedCheckpoint,
      row_metadata = ArrayBuffer serializedMetadata\<rparr>"

definition put ::
  "('ver, 'm) env \<Rightarrow> store \<Rightarrow> config \<Rightarrow> 'ver checkpoint \<Rightarrow> 'm \<Rightarrow> error + (config \<times> store)"
where
  "put e db config checkpoint metadata =
     (case config of
        None \<Rightarrow> Inl EmptyConfiguration
      | Some c \<Rightarrow>
          (let t = thread_id c;
               ns = nullish_or (checkpoint_ns c) (Str []);
               parent_checkpoint_id = checkpoint_id c
           in if \<not> truthy t then Inl MissingThreadId
              else
                (let preparedCheckpoint = copyCheckpoint e checkpoint;
                     dc = dumps_checkpoint e preparedCheckpoint;
                     dm = dumps_metadata e metadata
                 in if fst dc \<noteq> fst dm then Inl SerializationMismatch
                    else
                      Inr (Some \<lparr>thread_id = t, checkpoint_ns = ns,
                                 checkpoint_id = Str (ckpt_id checkpoint)\<rparr>,
                           insert_or_replace_checkpoint
                             (put_row (case t of Str x \<Rightarrow> x | Undefined \<Rightarrow> [] | Null \<Rightarrow> [])
                                ns (ckpt_id checkpoint) parent_checkpoint_id
                                (fst dc) (snd dc) (snd dm))
                             db))))"

definition write_statement ::
  "('ver, 'm) env \<Rightarrow> string \<Rightarrow> string \<Rightarrow> string \<Rightarrow> string \<Rightarrow> nat \<times> string \<times> jsv \<Rightarrow> write_row"
where
  "write_statement e t ns cid taskId iw =
     \<lparr>pw_thread_id = t, pw_checkpoint_ns = ns, pw_checkpoint_id = cid,
      pw_task_id = taskId, pw_idx = fst iw, pw_channel = fst (snd iw),
      pw_type = Some (fst (dumps_value e (snd (snd iw)))),
      pw_value = Some (snd (dumps_value e (snd (snd iw))))\<rparr>"

text \<open>The batch runs its statements in order.\<close>

definition batch_writes :: "write_row list \<Rightarrow> store \<Rightarrow> store" where
  "batch_writes statements db = fold insert_or_replace_write statements db"

definition str_or_empty :: "jsstr \<Rightarrow> string" where
  "str_or_empty x = (case x of Str s \<Rightarrow> s | Undefined \<Rightarrow> [] | Null \<Rightarrow> [])"

definition putWrites ::
  "('ver, 'm) env \<Rightarrow> store \<Rightarrow> config \<Rightarrow> (string \<times> jsv) list \<Rightarrow> string \<Rightarrow> error + store"
where
  "putWrites e db config writes_in taskId =
     (case config of
        None \<Rightarrow> Inl EmptyConfiguration
      | Some c \<Rightarrow>
          if \<not> truthy (thread_id c) then Inl MissingThreadId
          else if \<not> truthy (checkpoint_id c) then Inl MissingCheckpointId
          else
            Inr (batch_writes
                   (map (write_statement e
                           (str_or_empty (thread_id c))
                           (str_or_empty (nullish_or (checkpoint_ns c) (Str [])))
                           (str_or_empty (checkpoint_id c))
                           taskId)
                      (zip [0 ..< length writes_in] writes_in))
                   db))"

definition deleteThread :: "store \<Rightarrow> string \<Rightarrow> store" where
  "deleteThread db threadId =
     \<lparr>checkpoints = filter (\<lambda>r. row_thread_id r \<noteq> threadId) (checkpoints db),
      writes = filter (\<lambda>w. pw_thread_id w \<noteq> threadId) (writes db)\<rparr>"

section \<open>list\<close>

record list_options =
  limit :: "int option"
  before :: "config option"
  filter_opt :: "(string \<times> jsv option) list"

datatype clause = ThreadIdEq | CheckpointNsEq | CheckpointIdLt | MetadataEq string

fun holds :: "('ver, 'm) env \<Rightarrow> clause \<Rightarrow> string option \<Rightarrow> checkpoint_row \<Rightarrow> bool" where
  "holds e ThreadIdEq a r = sql_eq (row_thread_id r) a"
| "holds e CheckpointNsEq a r = sql_eq (row_checkpoint_ns r) a"
| "holds e CheckpointIdLt a r = sql_lt (row_checkpoint_id r) a"
| "holds e (MetadataEq key) a r =
     (case a of None \<Rightarrow> False | Some s \<Rightarrow> json_extract e (row_metadata r) key = Some s)"

text \<open>
  Placeholders take the arguments by position. A placeholder left without an argument
  is \<open>NULL\<close>; surplus arguments are dropped unless the executor is strict, and a strict
  executor rejects any statement whose counts differ.
\<close>

definition bind_positional :: "clause list \<Rightarrow> string list \<Rightarrow> (clause \<times> string option) list" where
  "bind_positional cls args =
     zip cls (map Some args @ replicate (length cls - length args) None)"

definition list_query ::
  "('ver, 'm) env \<Rightarrow> store \<Rightarrow> clause list \<Rightarrow> string list \<Rightarrow> int option
     \<Rightarrow> error + checkpoint_row list"
where
  "list_query e db whereClause args lim =
     (if strict_binding e \<and> length args \<noteq> length whereClause then Inl BackendError
      else
        let bound = bind_positional whereClause args;
            rows = filter (\<lambda>r. list_all (\<lambda>(cl, a). holds e cl a r) bound) (scan_checkpoints db);
            ordered = order_by_checkpoint_id_desc rows
        in Inr (case lim of None \<Rightarrow> ordered | Some n \<Rightarrow> sql_limit n ordered))"

definition defined_args :: "jsstr list \<Rightarrow> string list" where
  "defined_args vs = List.map_filter (\<lambda>v. case v of Str s \<Rightarrow> Some s | _ \<Rightarrow> None) vs"

definition sanitizedFilter :: "(string \<times> jsv option) list \<Rightarrow> (string \<times> jsv) list" where
  "sanitizedFilter entries =
     List.map_filter
       (\<lambda>(key, val). case val of
            None \<Rightarrow> None
          | Some x \<Rightarrow> if key \<in> set validCheckpointMetadataKeys then Some (key, x) else None)
       entries"

definition before_checkpoint_id :: "list_options \<Rightarrow> jsstr" where
  "before_checkpoint_id options =
     (case before options of
        None \<Rightarrow> Undefined
      | Some None \<Rightarrow> Undefined
      | Some (Some c) \<Rightarrow> checkpoint_id c)"

definition list_whereClause :: "jsstr \<Rightarrow> jsstr \<Rightarrow> jsstr \<Rightarrow> (string \<times> jsv) list \<Rightarrow> clause list" where
  "list_whereClause t ns b flt =
     (if truthy t then [ThreadIdEq] else []) @
     (if ns \<noteq> Undefined \<and> ns \<noteq> Null then [CheckpointNsEq] else []) @
     (if b \<noteq> Undefined then [CheckpointIdLt] else []) @
     map (\<lambda>(key, val). MetadataEq key) flt"

definition list_args ::
  "('ver, 'm) env \<Rightarrow> jsstr \<Rightarrow> jsstr \<Rightarrow> jsstr \<Rightarrow> (string \<times> jsv) list \<Rightarrow> string list"
where
  "list_args e t ns b flt =
     defined_args ([t, ns, b] @ map (\<lambda>(key, val). Str (stringify e val)) flt)"

definition list_row_to_tuple ::
  "('ver::linorder, 'm) env \<Rightarrow> store \<Rightarrow> checkpoint_row \<Rightarrow> ('ver, 'm) checkpoint_tuple"
where
  "list_row_to_tuple e db row =
     \<lparr>tuple_checkpoint = decode_checkpoint e db row,
      tuple_config = Some \<lparr>thread_id = Str (row_thread_id row),
                           checkpoint_ns = Str (row_checkpoint_ns row),
                           checkpoint_id = Str (row_checkpoint_id row)\<rparr>,
      tuple_metadata = decode_metadata e row,
      parentConfig = parent_config row (Str (row_checkpoint_ns row)),
      pendingWrites = decode_pending_writes e (pending_writes_subquery db row)\<rparr>"

definition list_rows ::
  "('ver, 'm) env \<Rightarrow> store \<Rightarrow> config \<Rightarrow> list_options \<Rightarrow> error + checkpoint_row list"
where
  "list_rows e db config options =
     (let t = (case config of None \<Rightarrow> Undefined | Some c \<Rightarrow> thread_id c);
          ns = (case config of None \<Rightarrow> Undefined | Some c \<Rightarrow> checkpoint_ns c);
          b = before_checkpoint_id options;
          flt = sanitizedFilter (filter_opt options);
          lim = (case limit options of None \<Rightarrow> None | Some n \<Rightarrow> if n = 0 then None else Some n)
      in list_query e db (list_whereClause t ns b flt) (list_args e t ns b flt) lim)"

definition list_checkpoints ::
  "('ver::linorder, 'm) env \<Rightarrow> store \<Rightarrow> config \<Rightarrow> list_options
     \<Rightarrow> error + ('ver, 'm) checkpoint_tuple list"
where
  "list_checkpoints e db config options =
     map_sum id (map (list_row_to_tuple e db)) (list_rows e db config options)"

section \<open>A concrete serializer and store for the examples\<close>

text \<open>
  A small environment on which the statements below are evaluated: versions are integers,
  metadata is a string, a checkpoint is written as a tag character (legacy or current)
  followed by its id, and the version generator counts from one.
\<close>

definition demo_checkpoint :: "string \<Rightarrow> int \<Rightarrow> int checkpoint" where
  "demo_checkpoint i ver =
     \<lparr>ckpt_v = ver, ckpt_id = i, ckpt_ts = [], channel_values = Some [],
      channel_versions = [], versions_seen = []\<rparr>"

definition demo_env :: "bool \<Rightarrow> (int, string) env" where
  "demo_env strict =
     \<lparr>dumps_checkpoint =
        (\<lambda>c. (''json'', (if ckpt_v c < 4 then CHR ''L'' else CHR ''C'') # ckpt_id c)),
      loads_checkpoint =
        (\<lambda>t s. case s of
                 [] \<Rightarrow> demo_checkpoint [] 4
               | c # rest \<Rightarrow> demo_checkpoint rest (if c = CHR ''L'' then 3 else 4)),
      dumps_metadata = (\<lambda>m. (''json'', m)),
      loads_metadata = (\<lambda>t s. s),
      dumps_value = (\<lambda>x. (''json'', case x of JStr s \<Rightarrow> s | _ \<Rightarrow> [])),
      loads_value = (\<lambda>t x. JStr (case x of None \<Rightarrow> [] | Some s \<Rightarrow> s)),
      copyCheckpoint = (\<lambda>c. c),
      getNextVersion = (\<lambda>cur. case cur of None \<Rightarrow> 1 | Some n \<Rightarrow> n + 1),
      json_extract = (\<lambda>b key. if key = ''source'' then Some (blobToString b) else None),
      stringify = (\<lambda>x. case x of JStr s \<Rightarrow> s | _ \<Rightarrow> []),
      strict_binding = strict\<rparr>"

definition partition_config :: "string \<Rightarrow> string \<Rightarrow> jsstr \<Rightarrow> config" where
  "partition_config t n i = Some \<lparr>thread_id = Str t, checkpoint_ns = Str n, checkpoint_id = i\<rparr>"

definition store_after :: "error + (config \<times> store) \<Rightarrow> store" where
  "store_after res = (case res of Inl err \<Rightarrow> empty_store | Inr (cfg, db) \<Rightarrow> db)"

definition writes_after :: "error + store \<Rightarrow> store" where
  "writes_after res = (case res of Inl err \<Rightarrow> empty_store | Inr db \<Rightarrow> db)"

text \<open>A legacy checkpoint \<open>c2\<close> with parent \<open>c1\<close> and no write rows at all.\<close>

definition legacy_store :: store where
  "legacy_store =
     store_after (put (demo_env True) empty_store (partition_config ''t1'' [] (Str ''c1''))
                    (demo_checkpoint ''c2'' 3) ''m'')"

text \<open>The same, with one \<open>TASKS\<close> write under \<open>c1\<close> in another namespace.\<close>

definition foreign_sends_store :: store where
  "foreign_sends_store =
     writes_after
       (putWrites (demo_env True) legacy_store (partition_config ''t1'' ''other'' (Str ''c1''))
          [(TASKS, JStr ''x'')] ''task'')"

text \<open>Two \<open>TASKS\<close> writes under \<open>c1\<close>.\<close>

definition sends_store :: store where
  "sends_store =
     writes_after
       (putWrites (demo_env True) empty_store (partition_config ''t1'' [] (Str ''c1''))
          [(TASKS, JStr ''s1''), (TASKS, JStr ''s2'')] ''task'')"

text \<open>Three current checkpoints of one partition, written out of order.\<close>

definition put_ids :: "config \<Rightarrow> string list \<Rightarrow> store \<Rightarrow> store" where
  "put_ids cfg ids db =
     fold (\<lambda>i s. store_after (put (demo_env True) s cfg (demo_checkpoint i 4) ''input'')) ids db"

definition dated_store :: store where
  "dated_store =
     put_ids (partition_config ''t1'' [] Undefined)
       [''2024-01-01T00:00:00'', ''2024-01-03T00:00:00'', ''2024-01-02T00:00:00''] empty_store"

definition no_options :: list_options where
  "no_options = \<lparr>limit = None, before = None, filter_opt = []\<rparr>"


section \<open>Notions used in the statements\<close>



text \<open>The arguments \<open>getTuple\<close> binds for the namespace and the optional checkpoint id.\<close>

definition ns_arg :: "configurable \<Rightarrow> string option" where
  "ns_arg c = (case checkpoint_ns c of Undefined \<Rightarrow> Some [] | Null \<Rightarrow> None | Str n \<Rightarrow> Some n)"

definition id_arg :: "configurable \<Rightarrow> string option option" where
  "id_arg c = (case checkpoint_id c of
                 Undefined \<Rightarrow> None | Null \<Rightarrow> None
               | Str s \<Rightarrow> if s = [] then None else Some (Some s))"

text \<open>The checkpoint id a returned tuple carries in its config.\<close>

definition tuple_checkpoint_id :: "('ver, 'm) checkpoint_tuple \<Rightarrow> string" where
  "tuple_checkpoint_id tup = str_or_empty (checkpoint_id (config_or_empty (tuple_config tup)))"

text \<open>The dated store after two writes of task \<open>t1\<close> against its second checkpoint.\<close>

definition written_store :: store where
  "written_store =
     writes_after
       (putWrites (demo_env True) dated_store
          (partition_config ''t1'' [] (Str ''2024-01-02T00:00:00''))
          [(''chanA'', JStr ''v1''), (''chanB'', JStr ''v2'')] ''t1'')"

text \<open>A partition with one checkpoint \<open>b\<close>, and two threads sharing a namespace.\<close>

definition one_store :: store where
  "one_store = put_ids (partition_config ''t1'' [] Undefined) [''b''] empty_store"

definition two_threads_store :: store where
  "two_threads_store =
     put_ids (partition_config ''t2'' ''x'' Undefined) [''c2'']
       (put_ids (partition_config ''t1'' ''x'' Undefined) [''c1''] empty_store)"

section \<open>Basic facts about the statements\<close>

lemma maxChannelVersion_Max: "maxChannelVersion (x # xs) = Max (set (x # xs))"
proof -
  have "(\<lambda>version mx. if version \<le> mx then mx else version) = (max :: 'a \<Rightarrow> 'a \<Rightarrow> 'a)"
    by (intro ext) (simp add: max_def)
  then show ?thesis
    by (simp only: maxChannelVersion.simps Max.set_eq_fold)
qed

lemma nullish_or_Str: "\<exists>n. nullish_or x (Str d) = Str n"
  by (cases x) auto

lemma checkpoints_insert_or_replace:
  "checkpoints (insert_or_replace_checkpoint r db) =
     filter (\<lambda>x. checkpoint_key x \<noteq> checkpoint_key r) (checkpoints db) @ [r]"
  by (simp add: insert_or_replace_checkpoint_def)

lemma writes_insert_or_replace_checkpoint:
  "writes (insert_or_replace_checkpoint r db) = writes db"
  by (simp add: insert_or_replace_checkpoint_def)

lemma filter_key_insert_or_replace:
  "filter (\<lambda>x. checkpoint_key x = checkpoint_key r)
     (checkpoints (insert_or_replace_checkpoint r db)) = [r]"
proof -
  have "filter (\<lambda>x. checkpoint_key x = checkpoint_key r)
          (filter (\<lambda>x. checkpoint_key x \<noteq> checkpoint_key r) (checkpoints db)) = []"
    by (induction "checkpoints db" arbitrary: db) (auto simp: filter_empty_conv)
  then show ?thesis
    by (simp add: checkpoints_insert_or_replace)
qed

lemma checkpoint_key_put_row:
  "checkpoint_key (put_row t (Str n) i p ty sc sm) = (t, n, i)"
  by (simp add: checkpoint_key_def put_row_def)

section \<open>put\<close>

lemma put_success:
  assumes "thread_id c = Str t" and "t \<noteq> []"
    and "fst (dumps_checkpoint e (copyCheckpoint e C)) = fst (dumps_metadata e M)"
  shows "put e db (Some c) C M =
           Inr (Some \<lparr>thread_id = Str t, checkpoint_ns = nullish_or (checkpoint_ns c) (Str []),
                      checkpoint_id = Str (ckpt_id C)\<rparr>,
                insert_or_replace_checkpoint
                  (put_row t (nullish_or (checkpoint_ns c) (Str [])) (ckpt_id C) (checkpoint_id c)
                     (fst (dumps_checkpoint e (copyCheckpoint e C)))
                     (snd (dumps_checkpoint e (copyCheckpoint e C)))
                     (snd (dumps_metadata e M)))
                  db)"
  using assms by (simp add: put_def Let_def)

lemma put_InrD:
  assumes "put e db config C M = Inr (cfg', db')"
  obtains c t where "config = Some c" and "thread_id c = Str t" and "t \<noteq> []"
    and "fst (dumps_checkpoint e (copyCheckpoint e C)) = fst (dumps_metadata e M)"
proof (cases config)
  case None
  with assms show ?thesis by (simp add: put_def)
next
  case (Some c)
  with assms have tr: "truthy (thread_id c)"
    by (auto simp: put_def Let_def split: if_splits)
  then obtain t where t: "thread_id c = Str t" "t \<noteq> []"
    by (cases "thread_id c") auto
  from assms Some tr have "fst (dumps_checkpoint e (copyCheckpoint e C)) = fst (dumps_metadata e M)"
    by (auto simp: put_def Let_def split: if_splits)
  with Some t that show ?thesis by blast
qed

text \<open>
  C10: the row that \<open>put\<close> writes takes its \<open>parent_checkpoint_id\<close> from the
  \<open>checkpoint_id\<close> of the incoming config, and holds \<open>NULL\<close> when that field is
  absent; the id of the checkpoint being written plays no part in it.
\<close>

theorem put_parent_from_config:
  assumes "put e db config C M = Inr (cfg', db')"
  shows "\<exists>c t n r. config = Some c \<and> thread_id c = Str t \<and>
           nullish_or (checkpoint_ns c) (Str []) = Str n \<and>
           filter (\<lambda>x. checkpoint_key x = (t, n, ckpt_id C)) (checkpoints db') = [r] \<and>
           row_parent_checkpoint_id r =
             (case checkpoint_id c of Str p \<Rightarrow> Some p | Undefined \<Rightarrow> None | Null \<Rightarrow> None)"
proof -
  from assms obtain c t where c: "config = Some c" "thread_id c = Str t" "t \<noteq> []"
    and ty: "fst (dumps_checkpoint e (copyCheckpoint e C)) = fst (dumps_metadata e M)"
    by (rule put_InrD)
  obtain n where n: "nullish_or (checkpoint_ns c) (Str []) = Str n"
    using nullish_or_Str by blast
  define r where "r = put_row t (Str n) (ckpt_id C) (checkpoint_id c)
                     (fst (dumps_checkpoint e (copyCheckpoint e C)))
                     (snd (dumps_checkpoint e (copyCheckpoint e C)))
                     (snd (dumps_metadata e M))"
  have db': "db' = insert_or_replace_checkpoint r db"
    using assms put_success [OF c(2,3) ty, of db] c(1) n by (simp add: r_def)
  have key: "checkpoint_key r = (t, n, ckpt_id C)"
    by (simp add: r_def checkpoint_key_put_row)
  have "filter (\<lambda>x. checkpoint_key x = (t, n, ckpt_id C)) (checkpoints db') = [r]"
    using filter_key_insert_or_replace [of r db] by (simp add: db' key)
  moreover have "row_parent_checkpoint_id r =
      (case checkpoint_id c of Str p \<Rightarrow> Some p | Undefined \<Rightarrow> None | Null \<Rightarrow> None)"
    by (simp add: r_def put_row_def)
  ultimately show ?thesis using c n by blast
qed

theorem put_parent_from_config_witness:
  "\<exists>db' r. put (demo_env True) empty_store (partition_config ''t1'' [] (Str ''c0''))
               (demo_checkpoint ''c1'' 4) ''m''
       = Inr (partition_config ''t1'' [] (Str ''c1''), db') \<and>
     filter (\<lambda>x. checkpoint_key x = (''t1'', [], ''c1'')) (checkpoints db') = [r] \<and>
     row_parent_checkpoint_id r = Some ''c0''"
proof -
  have "\<exists>db'. put (demo_env True) empty_store (partition_config ''t1'' [] (Str ''c0''))
             (demo_checkpoint ''c1'' 4) ''m'' = Inr (partition_config ''t1'' [] (Str ''c1''), db')"
    by (simp add: put_def demo_env_def partition_config_def demo_checkpoint_def Let_def)
  then obtain db' where db':
    "put (demo_env True) empty_store (partition_config ''t1'' [] (Str ''c0''))
       (demo_checkpoint ''c1'' 4) ''m'' = Inr (partition_config ''t1'' [] (Str ''c1''), db')"
    by blast
  from put_parent_from_config [OF db'] db' show ?thesis
    by (auto simp: partition_config_def demo_checkpoint_def)
qed

lemma put_row_content:
  "row_checkpoint (put_row t ns i p ty sc sm) = ArrayBuffer sc"
  "row_metadata (put_row t ns i p ty sc sm) = ArrayBuffer sm"
  "row_type (put_row t ns i p ty sc sm) = Some ty"
  by (simp_all add: put_row_def)

lemma put_writes_row:
  assumes "put e db (Some c) C M = Inr (cfg', db')"
    and "thread_id c = Str t" and "nullish_or (checkpoint_ns c) (Str []) = Str n"
  shows "\<exists>r. filter (\<lambda>x. checkpoint_key x = (t, n, ckpt_id C)) (checkpoints db') = [r] \<and>
             row_checkpoint r = ArrayBuffer (snd (dumps_checkpoint e (copyCheckpoint e C))) \<and>
             row_metadata r = ArrayBuffer (snd (dumps_metadata e M)) \<and>
             row_type r = Some (fst (dumps_checkpoint e (copyCheckpoint e C)))"
proof -
  from assms(1) obtain c0 t0 where c0: "Some c = Some c0" "thread_id c0 = Str t0" "t0 \<noteq> []"
    and ty: "fst (dumps_checkpoint e (copyCheckpoint e C)) = fst (dumps_metadata e M)"
    by (rule put_InrD)
  from c0 assms(2) have t: "t \<noteq> []" by simp
  define r where "r = put_row t (Str n) (ckpt_id C) (checkpoint_id c)
                     (fst (dumps_checkpoint e (copyCheckpoint e C)))
                     (snd (dumps_checkpoint e (copyCheckpoint e C)))
                     (snd (dumps_metadata e M))"
  have db': "db' = insert_or_replace_checkpoint r db"
    using assms(1) put_success [OF assms(2) t ty, of db] assms(3) by (simp add: r_def)
  have "filter (\<lambda>x. checkpoint_key x = (t, n, ckpt_id C)) (checkpoints db') = [r]"
    using filter_key_insert_or_replace [of r db]
    by (simp add: db' r_def checkpoint_key_put_row)
  then show ?thesis
    by (auto simp: r_def put_row_content)
qed

lemma demo_put:
  "t \<noteq> [] \<Longrightarrow>
   put (demo_env s) db (partition_config t n p) C M =
     Inr (partition_config t n (Str (ckpt_id C)),
          insert_or_replace_checkpoint
            (put_row t (Str n) (ckpt_id C) p ''json''
               ((if ckpt_v C < 4 then CHR ''L'' else CHR ''C'') # ckpt_id C) M) db)"
  by (simp add: put_def demo_env_def partition_config_def Let_def)

text \<open>
  C8: two calls of \<open>put\<close> with the same thread id, namespace and checkpoint id leave
  exactly one row under that primary key, and the row holds the serialized checkpoint
  and metadata of the second call.
\<close>

theorem put_twice_one_row:
  assumes "put e db (Some c1) C1 M1 = Inr (cfg1, db1)"
    and "put e db1 (Some c2) C2 M2 = Inr (cfg2, db2)"
    and "thread_id c2 = thread_id c1"
    and "nullish_or (checkpoint_ns c2) (Str []) = nullish_or (checkpoint_ns c1) (Str [])"
    and "ckpt_id C2 = ckpt_id C1"
  shows "\<exists>t n r. thread_id c1 = Str t \<and> nullish_or (checkpoint_ns c1) (Str []) = Str n \<and>
           filter (\<lambda>x. checkpoint_key x = (t, n, ckpt_id C1)) (checkpoints db2) = [r] \<and>
           row_checkpoint r = ArrayBuffer (snd (dumps_checkpoint e (copyCheckpoint e C2))) \<and>
           row_metadata r = ArrayBuffer (snd (dumps_metadata e M2))"
proof -
  from assms(1) obtain c t where "Some c1 = Some c" "thread_id c = Str t"
    by (rule put_InrD)
  then have t: "thread_id c1 = Str t" by simp
  obtain n where n: "nullish_or (checkpoint_ns c1) (Str []) = Str n"
    using nullish_or_Str by blast
  from put_writes_row [OF assms(2), of t n] t n assms(3,4,5) show ?thesis
    by auto
qed

theorem put_twice_one_row_witness:
  "\<exists>db1 db2 r.
     put (demo_env True) empty_store (partition_config ''t1'' [] Undefined)
       (demo_checkpoint ''c1'' 4) ''first'' = Inr (partition_config ''t1'' [] (Str ''c1''), db1) \<and>
     put (demo_env True) db1 (partition_config ''t1'' [] Undefined)
       (demo_checkpoint ''c1'' 3) ''second'' = Inr (partition_config ''t1'' [] (Str ''c1''), db2) \<and>
     filter (\<lambda>x. checkpoint_key x = (''t1'', [], ''c1'')) (checkpoints db2) = [r] \<and>
     row_checkpoint r = ArrayBuffer ''Lc1'' \<and> row_metadata r = ArrayBuffer ''second''"
proof -
  obtain db1 where db1:
    "put (demo_env True) empty_store (partition_config ''t1'' [] Undefined)
       (demo_checkpoint ''c1'' 4) ''first'' = Inr (partition_config ''t1'' [] (Str ''c1''), db1)"
    by (simp add: demo_put demo_checkpoint_def)
  obtain db2 where db2:
    "put (demo_env True) db1 (partition_config ''t1'' [] Undefined)
       (demo_checkpoint ''c1'' 3) ''second'' = Inr (partition_config ''t1'' [] (Str ''c1''), db2)"
    by (simp add: demo_put demo_checkpoint_def)
  from put_twice_one_row [OF db1 [unfolded partition_config_def] db2 [unfolded partition_config_def]]
  have "\<exists>r. filter (\<lambda>x. checkpoint_key x = (''t1'', [], ''c1'')) (checkpoints db2) = [r] \<and>
     row_checkpoint r = ArrayBuffer ''Lc1'' \<and> row_metadata r = ArrayBuffer ''second''"
    by (simp add: demo_checkpoint_def demo_env_def)
  with db1 db2 show ?thesis by blast
qed

section \<open>migratePendingSends\<close>

lemma migration_query_one_row: "length (migration_query db t p) = 1"
  by (simp add: migration_query_def aggregate_row_def)

lemma map_of_update_same: "map_of (AList.update k v al) k = Some v"
  by (simp add: update_conv')

text \<open>
  C3, evaluated: a legacy checkpoint \<open>c2\<close> of namespace \<open>''''\<close> whose parent is \<open>c1\<close>, and a
  single \<open>TASKS\<close> write under \<open>c1\<close> in namespace \<open>other\<close>. The correlated subquery of the
  \<open>SELECT\<close>, which compares the namespace, finds no pending send; the statement of
  \<open>migratePendingSends\<close> compares thread and checkpoint id only, and the checkpoint that
  \<open>getTuple\<close> returns carries the write of the other namespace.
\<close>

theorem migration_reads_other_namespace:
  "map pw_checkpoint_ns (writes foreign_sends_store) = [''other''] \<and>
   map (pending_sends_subquery foreign_sends_store) (checkpoints foreign_sends_store) = [[]] \<and>
   map_sum id (map_option (channel_values \<circ> tuple_checkpoint))
     (getTuple (demo_env True) foreign_sends_store (partition_config ''t1'' [] (Str ''c2'')))
   = Inr (Some (Some [(TASKS, JArr [JStr ''x''])]))"
  by code_simp

text \<open>
  C4, evaluated: a legacy checkpoint with a parent and no write rows in the store. The
  aggregate statement still returns its one row, the early return is not taken, and the
  checkpoint that \<open>getTuple\<close> returns has gained an empty \<open>TASKS\<close> entry in
  \<open>channel_values\<close> and a \<open>TASKS\<close> entry in \<open>channel_versions\<close>.
\<close>

theorem migration_without_sends_adds_tasks:
  "writes legacy_store = [] \<and>
   map_sum id (map_option tuple_checkpoint)
     (getTuple (demo_env True) legacy_store (partition_config ''t1'' [] (Str ''c2'')))
   = Inr (Some ((demo_checkpoint ''c2'' 3)
            \<lparr>channel_values := Some [(TASKS, JArr [])], channel_versions := [(TASKS, 1)]\<rparr>))"
  by code_simp

text \<open>
  C5: on the branch where the migration assigns the decoded pending sends to the
  \<open>TASKS\<close> channel, the version it stores for \<open>TASKS\<close> is the maximum of the versions
  already in \<open>channel_versions\<close> when there are any, and otherwise the version the
  generator returns for no predecessor.
\<close>

theorem migration_sets_tasks_version:
  assumes "migration_query db threadId parent = row # rest"
  shows "map_of (channel_versions (migratePendingSends e db C threadId parent)) TASKS =
           Some (if channel_versions C \<noteq> [] then Max (snd ` set (channel_versions C))
                 else getNextVersion e None)"
proof (cases "channel_versions C")
  case Nil
  with assms show ?thesis
    by (simp add: migratePendingSends_def Let_def map_of_update_same)
next
  case (Cons kv kvs)
  then have "maxChannelVersion (map snd (channel_versions C)) = Max (snd ` set (channel_versions C))"
    by (simp only: list.map maxChannelVersion_Max set_map [symmetric])
  with assms Cons show ?thesis
    by (simp add: migratePendingSends_def Let_def map_of_update_same)
qed

theorem migration_sets_tasks_version_witness:
  "migration_query sends_store ''t1'' ''c1'' \<noteq> [] \<and>
   map_of (channel_versions
      (migratePendingSends (demo_env True) sends_store
         ((demo_checkpoint ''c2'' 3)\<lparr>channel_versions := [(''a'', 3), (''b'', 7), (''c'', 5)]\<rparr>)
         ''t1'' ''c1'')) TASKS = Some 7 \<and>
   map_of (channel_versions
      (migratePendingSends (demo_env True) sends_store (demo_checkpoint ''c2'' 3) ''t1'' ''c1''))
      TASKS = Some 1"
proof -
  obtain row rest where q: "migration_query sends_store ''t1'' ''c1'' = row # rest"
    using migration_query_one_row [of sends_store "''t1''" "''c1''"]
    by (cases "migration_query sends_store ''t1'' ''c1''") auto
  show ?thesis
    using q migration_sets_tasks_version [OF q, of "demo_env True"
        "(demo_checkpoint ''c2'' 3)\<lparr>channel_versions := [(''a'', 3), (''b'', 7), (''c'', 5)]\<rparr>"]
      migration_sets_tasks_version [OF q, of "demo_env True" "demo_checkpoint ''c2'' 3"]
    by (simp add: demo_checkpoint_def demo_env_def)
qed

section \<open>getTuple\<close>

lemma getTuple_unfold:
  assumes "thread_id c = Str t"
  shows "getTuple e db (Some c) =
           (case getTuple_query db (Some t) (ns_arg c) (id_arg c) of
              [] \<Rightarrow> Inr None
            | row # rest \<Rightarrow> Inr (Some (getTuple_result e db (Some c) row)))"
proof (cases "checkpoint_ns c")
  case Undefined
  with assms show ?thesis
    by (cases "checkpoint_id c")
      (auto simp: getTuple_def config_or_empty_def ns_arg_def id_arg_def getTuple_result_def final_config_def
            Let_def split: list.splits)
next
  case Null
  with assms show ?thesis
    by (cases "checkpoint_id c")
      (auto simp: getTuple_def config_or_empty_def ns_arg_def id_arg_def getTuple_result_def final_config_def
            Let_def split: list.splits)
next
  case (Str n)
  with assms show ?thesis
    by (cases "checkpoint_id c")
      (auto simp: getTuple_def config_or_empty_def ns_arg_def id_arg_def getTuple_result_def final_config_def
            Let_def split: list.splits)
qed


lemma set_scan_checkpoints: "set (scan_checkpoints db) = set (checkpoints db)"
  by (simp add: scan_checkpoints_def)







section \<open>list\<close>















section \<open>Pending writes\<close>

lemma sort_key_append_low:
  fixes f :: "'a \<Rightarrow> 'k::linorder"
  assumes low: "sorted (map f low)" and sep: "\<forall>x\<in>set high. \<forall>y\<in>set low. f y < f x"
  shows "sort_key f (high @ low) = low @ sort_key f high"
proof (rule properties_for_sort_key)
  show "mset (low @ sort_key f high) = mset (high @ low)"
    by simp
next
  fix k assume "k \<in> set (low @ sort_key f high)"
  then consider "k \<in> set low" | "k \<in> set high" by auto
  then show "filter (\<lambda>x. f k = f x) (low @ sort_key f high) = filter (\<lambda>x. f k = f x) (high @ low)"
  proof cases
    case 1
    with sep have "\<forall>x\<in>set high. f k \<noteq> f x"
      by (metis less_irrefl)
    then have "filter (\<lambda>x. f k = f x) high = []"
      by (simp add: filter_empty_conv)
    moreover have "filter (\<lambda>x. f k = f x) (sort_key f high) = filter (\<lambda>x. f k = f x) high"
      using sort_key_stable [of f "f k" high] by (simp add: eq_commute)
    ultimately show ?thesis by simp
  next
    case 2
    with sep have "\<forall>x\<in>set low. f k \<noteq> f x"
      by (metis less_irrefl)
    then have "filter (\<lambda>x. f k = f x) low = []"
      by (simp add: filter_empty_conv)
    moreover have "filter (\<lambda>x. f k = f x) (sort_key f high) = filter (\<lambda>x. f k = f x) high"
      using sort_key_stable [of f "f k" high] by (simp add: eq_commute)
    ultimately show ?thesis by simp
  qed
next
  show "sorted (map f (low @ sort_key f high))"
    using low sep by (auto simp: sorted_append less_imp_le)
qed

lemma writes_insert_or_replace_write:
  "writes (insert_or_replace_write w db) =
     filter (\<lambda>x. write_key x \<noteq> write_key w) (writes db) @ [w]"
  by (simp add: insert_or_replace_write_def)

lemma writes_batch:
  assumes "distinct (map write_key stmts)"
  shows "writes (batch_writes stmts db) =
           filter (\<lambda>x. write_key x \<notin> set (map write_key stmts)) (writes db) @ stmts"
  using assms unfolding batch_writes_def
proof (induction stmts arbitrary: db)
  case Nil
  then show ?case by simp
next
  case (Cons s ss)
  then have "writes (fold insert_or_replace_write ss (insert_or_replace_write s db)) =
      filter (\<lambda>x. write_key x \<notin> set (map write_key ss))
        (writes (insert_or_replace_write s db)) @ ss"
    by simp
  also have "\<dots> = filter (\<lambda>x. write_key x \<notin> set (map write_key (s # ss))) (writes db) @ s # ss"
    using Cons.prems by (auto simp: writes_insert_or_replace_write intro: filter_cong)
  finally show ?case by simp
qed

lemma checkpoints_batch: "checkpoints (batch_writes stmts db) = checkpoints db"
  unfolding batch_writes_def
  by (induction stmts arbitrary: db) (simp_all add: insert_or_replace_write_def)

lemma write_key_statement:
  "write_key (write_statement e t n cid task iw) = (t, n, cid, task, fst iw)"
  by (simp add: write_key_def write_statement_def)

lemma map_write_key_statements:
  "map write_key (map (write_statement e t n cid task) (zip [0 ..< length ws] ws)) =
     map (\<lambda>i. (t, n, cid, task, i)) [0 ..< length ws]"
proof -
  have "map fst (zip [0 ..< length ws] ws) = [0 ..< length ws]"
    by simp
  then show ?thesis
    by (simp add: write_key_statement comp_def flip: map_map [of "\<lambda>i. (t, n, cid, task, i)" fst, unfolded comp_def])
qed

lemma sorted_writes_of_checkpoint:
  "sorted (map (\<lambda>w. (pw_task_id w, pw_idx w)) (filter (owns_write r) (scan_writes db)))"
proof -
  let ?rows = "filter (owns_write r) (scan_writes db)"
  have "sorted (map write_key (scan_writes db))"
    by (simp add: scan_writes_def)
  then have "sorted (map write_key ?rows)"
    by (rule sorted_filter)
  then have "sorted_wrt (\<lambda>x y. write_key x \<le> write_key y) ?rows"
    by (simp add: sorted_map)
  then have "sorted_wrt (\<lambda>x y. (pw_task_id x, pw_idx x) \<le> (pw_task_id y, pw_idx y)) ?rows"
  proof (rule sorted_wrt_mono_rel [rotated])
    fix x y assume "x \<in> set ?rows" "y \<in> set ?rows" "write_key x \<le> write_key y"
    then show "(pw_task_id x, pw_idx x) \<le> (pw_task_id y, pw_idx y)"
      by (auto simp: owns_write_def write_key_def less_eq_prod_def less_prod_def)
  qed
  then show ?thesis by (simp add: sorted_map)
qed


lemma sorted_statement_keys:
  "sorted (map write_key (map (write_statement e t n cid task) (zip [0 ..< length ws] ws)))"
proof -
  have "sorted_wrt (\<lambda>i j. (t, n, cid, task, i) \<le> (t, n, cid, task, j)) [0 ..< length ws]"
    by (rule sorted_wrt_mono_rel [OF _ sorted_wrt_upt]) (simp add: less_eq_prod_def)
  then show ?thesis
    by (simp only: map_write_key_statements sorted_map)
qed

lemma statements_after_batch:
  assumes row: "row_thread_id row = t" "row_checkpoint_ns row = n" "row_checkpoint_id row = cid"
  shows "take (length ws)
           (filter (\<lambda>w. pw_task_id w = task)
              (filter (owns_write row)
                 (scan_writes
                    (batch_writes
                       (map (write_statement e t n cid task) (zip [0 ..< length ws] ws)) db))))
         = map (write_statement e t n cid task) (zip [0 ..< length ws] ws)"
proof -
  let ?stmts = "map (write_statement e t n cid task) (zip [0 ..< length ws] ws)"
  let ?Q = "\<lambda>w. owns_write row w \<and> pw_task_id w = task"
  let ?A = "filter ?Q (filter (\<lambda>x. write_key x \<notin> set (map write_key ?stmts)) (writes db))"
  have keys: "map write_key ?stmts = map (\<lambda>i. (t, n, cid, task, i)) [0 ..< length ws]"
    by (rule map_write_key_statements)
  have dist: "distinct (map write_key ?stmts)"
    unfolding keys by (simp add: distinct_map inj_on_def)
  have Qs: "filter ?Q ?stmts = ?stmts"
    using row by (simp add: owns_write_def write_statement_def)
  have Qkey: "write_key x = (t, n, cid, task, pw_idx x)" if "?Q x" for x
    using that row by (simp add: owns_write_def write_key_def)
  have high: "\<forall>x\<in>set ?A. \<forall>y\<in>set ?stmts. write_key y < write_key x"
  proof (intro ballI)
    fix x y assume x: "x \<in> set ?A" and y: "y \<in> set ?stmts"
    from x have qx: "?Q x" and nk: "write_key x \<notin> set (map write_key ?stmts)" by auto
    from nk have "pw_idx x \<notin> {0 ..< length ws}"
      unfolding keys Qkey [OF qx] by auto
    then have ge: "length ws \<le> pw_idx x" by simp
    from y have "write_key y \<in> write_key ` set ?stmts" by (rule imageI)
    then have "write_key y \<in> set (map write_key ?stmts)" by (simp only: set_map)
    then obtain i where i: "i < length ws" "write_key y = (t, n, cid, task, i)"
      unfolding keys by auto
    with ge show "write_key y < write_key x"
      by (simp add: Qkey [OF qx] less_prod_def)
  qed
  have "filter (\<lambda>w. pw_task_id w = task) (filter (owns_write row) (scan_writes (batch_writes ?stmts db)))
          = filter ?Q (scan_writes (batch_writes ?stmts db))"
    by (simp add: conj_commute)
  also have "\<dots> = sort_key write_key (filter ?Q (writes (batch_writes ?stmts db)))"
    by (simp add: scan_writes_def filter_sort)
  also have "filter ?Q (writes (batch_writes ?stmts db)) = ?A @ ?stmts"
    by (simp only: writes_batch [OF dist] filter_append Qs)
  also have "sort_key write_key (?A @ ?stmts) = ?stmts @ sort_key write_key ?A"
    by (rule sort_key_append_low [OF sorted_statement_keys high])
  finally show ?thesis by simp
qed

lemma decode_statements:
  "decode_pending_writes e
     (map to_write_column (map (write_statement e t n cid task) (zip [0 ..< length ws] ws)))
   = map (\<lambda>(channel, val).
            (task, channel,
             loads_value e (Some (fst (dumps_value e val))) (Some (snd (dumps_value e val)))))
       ws"
proof -
  let ?g = "\<lambda>(channel, val).
            (task, channel,
             loads_value e (Some (fst (dumps_value e val))) (Some (snd (dumps_value e val))))"
  have "decode_pending_writes e
     (map to_write_column (map (write_statement e t n cid task) (zip [0 ..< length ws] ws)))
     = map (\<lambda>iw. ?g (snd iw)) (zip [0 ..< length ws] ws)"
    by (simp add: decode_pending_writes_def to_write_column_def write_statement_def
          case_prod_unfold)
  also have "\<dots> = map ?g (map snd (zip [0 ..< length ws] ws))"
    by (simp only: map_map comp_def)
  also have "map snd (zip [0 ..< length ws] ws) = ws"
    by simp
  finally show ?thesis .
qed

lemma filter_task_decode:
  "filter (\<lambda>pw. fst pw = task) (decode_pending_writes e (map to_write_column rows)) =
     decode_pending_writes e (map to_write_column (filter (\<lambda>w. pw_task_id w = task) rows))"
  by (induction rows) (simp_all add: decode_pending_writes_def to_write_column_def)

lemma take_decode:
  "take k (decode_pending_writes e cols) = decode_pending_writes e (take k cols)"
  by (simp add: decode_pending_writes_def take_map)


lemma set_getTuple_query: "set (getTuple_query db a b c) \<subseteq> set (checkpoints db)"
  by (auto simp: getTuple_query_def Let_def sql_limit_def order_by_checkpoint_id_desc_def
        set_scan_checkpoints split: option.splits dest: in_set_takeD)

lemma getTuple_SomeD:
  assumes "getTuple e db config = Inr (Some tup)"
  shows "\<exists>r\<in>set (checkpoints db). tup = getTuple_result e db config r"
proof -
  from assms obtain a b c row rest where q: "getTuple_query db a b c = row # rest"
    and tup: "tup = getTuple_result e db config row"
    unfolding getTuple_def Let_def
    by (auto split: sum.splits list.splits if_splits)
  from q have "row \<in> set (getTuple_query db a b c)" by simp
  with set_getTuple_query have "row \<in> set (checkpoints db)" by blast
  with tup show ?thesis by blast
qed

lemma putWrites_InrD:
  assumes "putWrites e db config ws task = Inr db'"
  obtains c t cid where "config = Some c" and "thread_id c = Str t" and "t \<noteq> []"
    and "checkpoint_id c = Str cid" and "cid \<noteq> []"
    and "db' = batch_writes
                 (map (write_statement e t
                         (str_or_empty (nullish_or (checkpoint_ns c) (Str []))) cid task)
                    (zip [0 ..< length ws] ws)) db"
proof (cases config)
  case None
  with assms show ?thesis by (simp add: putWrites_def)
next
  case (Some c)
  with assms have tr: "truthy (thread_id c)" "truthy (checkpoint_id c)"
    by (auto simp: putWrites_def split: if_splits)
  then obtain t cid where t: "thread_id c = Str t" "t \<noteq> []"
    and cid: "checkpoint_id c = Str cid" "cid \<noteq> []"
    by (cases "thread_id c"; cases "checkpoint_id c") auto
  from assms Some t cid have "db' = batch_writes
                 (map (write_statement e t
                         (str_or_empty (nullish_or (checkpoint_ns c) (Str []))) cid task)
                    (zip [0 ..< length ws] ws)) db"
    by (simp add: putWrites_def str_or_empty_def)
  with Some t cid that show ?thesis by blast
qed

text \<open>
  C2: the \<open>pendingWrites\<close> of a tuple returned by \<open>getTuple\<close> are the decoded write rows
  of that checkpoint, all of them, in ascending order of task id and then sequence index;
  and after \<open>putWrites\<close> of a list of writes under one task, the first entries that
  \<open>getTuple\<close> returns for that task are the entries of the list, tagged with the task,
  in input order.
\<close>

theorem pending_writes_ordered:
  "(getTuple e db config = Inr (Some tup) \<longrightarrow>
      (\<exists>r\<in>set (checkpoints db). \<exists>rows.
          tup = getTuple_result e db config r \<and>
          mset rows = mset (filter (owns_write r) (writes db)) \<and>
          sorted (map (\<lambda>w. (pw_task_id w, pw_idx w)) rows) \<and>
          pendingWrites tup = decode_pending_writes e (map to_write_column rows))) \<and>
   (putWrites e db config ws task = Inr db' \<and> getTuple e db' config = Inr (Some tup') \<longrightarrow>
      take (length ws) (filter (\<lambda>pw. fst pw = task) (pendingWrites tup')) =
        map (\<lambda>(channel, val).
               (task, channel,
                loads_value e (Some (fst (dumps_value e val))) (Some (snd (dumps_value e val)))))
          ws)"
proof (intro conjI impI)
  assume "getTuple e db config = Inr (Some tup)"
  then obtain r where r: "r \<in> set (checkpoints db)" "tup = getTuple_result e db config r"
    using getTuple_SomeD by blast
  let ?rows = "filter (owns_write r) (scan_writes db)"
  have "mset ?rows = mset (filter (owns_write r) (writes db))"
    by (simp add: scan_writes_def)
  moreover have "sorted (map (\<lambda>w. (pw_task_id w, pw_idx w)) ?rows)"
    by (rule sorted_writes_of_checkpoint)
  moreover have "pendingWrites tup = decode_pending_writes e (map to_write_column ?rows)"
    by (simp add: r(2) getTuple_result_def pending_writes_subquery_def)
  ultimately show "\<exists>r\<in>set (checkpoints db). \<exists>rows.
          tup = getTuple_result e db config r \<and>
          mset rows = mset (filter (owns_write r) (writes db)) \<and>
          sorted (map (\<lambda>w. (pw_task_id w, pw_idx w)) rows) \<and>
          pendingWrites tup = decode_pending_writes e (map to_write_column rows)"
    using r by blast
next
  assume a: "putWrites e db config ws task = Inr db' \<and> getTuple e db' config = Inr (Some tup')"
  then obtain c t cid where c: "config = Some c" "thread_id c = Str t" "t \<noteq> []"
    "checkpoint_id c = Str cid" "cid \<noteq> []"
    and db': "db' = batch_writes
                 (map (write_statement e t
                         (str_or_empty (nullish_or (checkpoint_ns c) (Str []))) cid task)
                    (zip [0 ..< length ws] ws)) db"
    using putWrites_InrD [of e db config ws task db'] by blast
  let ?n = "str_or_empty (nullish_or (checkpoint_ns c) (Str []))"
  let ?stmts = "map (write_statement e t ?n cid task) (zip [0 ..< length ws] ws)"
  have ia: "id_arg c = Some (Some cid)"
    using c by (simp add: id_arg_def)
  from a c have g: "getTuple e db' (Some c) = Inr (Some tup')" by simp
  then obtain row rest where q: "getTuple_query db' (Some t) (ns_arg c) (id_arg c) = row # rest"
    and tup': "tup' = getTuple_result e db' (Some c) row"
    unfolding getTuple_unfold [OF c(2)] by (auto split: list.splits)
  from q have "row \<in> set (getTuple_query db' (Some t) (ns_arg c) (Some (Some cid)))"
    by (simp add: ia)
  then have rowp: "row_thread_id row = t" "sql_eq (row_checkpoint_ns row) (ns_arg c)"
    "row_checkpoint_id row = cid"
    by (auto simp: getTuple_query_def Let_def sql_eq_def)
  from rowp(2) have rown: "row_checkpoint_ns row = ?n"
    by (cases "checkpoint_ns c") (auto simp: ns_arg_def sql_eq_def str_or_empty_def)
  have "pendingWrites tup' =
          decode_pending_writes e (map to_write_column (filter (owns_write row) (scan_writes db')))"
    by (simp add: tup' getTuple_result_def pending_writes_subquery_def)
  then have "take (length ws) (filter (\<lambda>pw. fst pw = task) (pendingWrites tup')) =
      decode_pending_writes e (map to_write_column
        (take (length ws) (filter (\<lambda>w. pw_task_id w = task)
           (filter (owns_write row) (scan_writes db')))))"
    by (simp only: filter_task_decode take_decode take_map)
  also have "take (length ws) (filter (\<lambda>w. pw_task_id w = task)
           (filter (owns_write row) (scan_writes db'))) = ?stmts"
    unfolding db' by (rule statements_after_batch [OF rowp(1) rown rowp(3)])
  finally show "take (length ws) (filter (\<lambda>pw. fst pw = task) (pendingWrites tup')) =
        map (\<lambda>(channel, val).
               (task, channel,
                loads_value e (Some (fst (dumps_value e val))) (Some (snd (dumps_value e val)))))
          ws"
    by (simp only: decode_statements)
qed

theorem pending_writes_ordered_witness:
  "\<exists>tup.
     putWrites (demo_env True) dated_store
       (partition_config ''t1'' [] (Str ''2024-01-02T00:00:00''))
       [(''chanA'', JStr ''v1''), (''chanB'', JStr ''v2'')] ''t1'' = Inr written_store \<and>
     getTuple (demo_env True) written_store
       (partition_config ''t1'' [] (Str ''2024-01-02T00:00:00'')) = Inr (Some tup) \<and>
     (\<exists>r\<in>set (checkpoints written_store). \<exists>rows.
        mset rows = mset (filter (owns_write r) (writes written_store)) \<and>
        sorted (map (\<lambda>w. (pw_task_id w, pw_idx w)) rows) \<and>
        pendingWrites tup = decode_pending_writes (demo_env True) (map to_write_column rows)) \<and>
     take 2 (filter (\<lambda>pw. fst pw = ''t1'') (pendingWrites tup)) =
       [(''t1'', ''chanA'', JStr ''v1''), (''t1'', ''chanB'', JStr ''v2'')]"
proof -
  let ?cfg = "partition_config ''t1'' [] (Str ''2024-01-02T00:00:00'')"
  let ?ws = "[(''chanA'', JStr ''v1''), (''chanB'', JStr ''v2'')]"
  have pw: "putWrites (demo_env True) dated_store ?cfg ?ws ''t1'' = Inr written_store"
    by code_simp
  have "map_sum id (map_option tuple_checkpoint_id) (getTuple (demo_env True) written_store ?cfg)
          = Inr (Some ''2024-01-02T00:00:00'')"
    by code_simp
  then obtain tup where g: "getTuple (demo_env True) written_store ?cfg = Inr (Some tup)"
    by (cases "getTuple (demo_env True) written_store ?cfg") auto
  have "\<exists>r\<in>set (checkpoints written_store). \<exists>rows.
        tup = getTuple_result (demo_env True) written_store ?cfg r \<and>
        mset rows = mset (filter (owns_write r) (writes written_store)) \<and>
        sorted (map (\<lambda>w. (pw_task_id w, pw_idx w)) rows) \<and>
        pendingWrites tup = decode_pending_writes (demo_env True) (map to_write_column rows)"
    by (rule pending_writes_ordered [of "demo_env True" written_store "?cfg" tup,
          THEN conjunct1, THEN mp, OF g])
  then have "\<exists>r\<in>set (checkpoints written_store). \<exists>rows.
        mset rows = mset (filter (owns_write r) (writes written_store)) \<and>
        sorted (map (\<lambda>w. (pw_task_id w, pw_idx w)) rows) \<and>
        pendingWrites tup = decode_pending_writes (demo_env True) (map to_write_column rows)"
    by blast
  moreover have "take (length ?ws) (filter (\<lambda>pw. fst pw = ''t1'') (pendingWrites tup)) =
        map (\<lambda>(channel, val).
               (''t1'', channel,
                loads_value (demo_env True) (Some (fst (dumps_value (demo_env True) val)))
                  (Some (snd (dumps_value (demo_env True) val)))))
          ?ws"
    by (rule pending_writes_ordered [of "demo_env True" dated_store "?cfg" _ "?ws" "''t1''"
          written_store tup, THEN conjunct2, THEN mp, OF conjI [OF pw g]])
  then have "take 2 (filter (\<lambda>pw. fst pw = ''t1'') (pendingWrites tup)) =
       [(''t1'', ''chanA'', JStr ''v1''), (''t1'', ''chanB'', JStr ''v2'')]"
    by (simp add: demo_env_def numeral_2_eq_2)
  ultimately show ?thesis using pw g by blast
qed

section \<open>Round trip and the empty-string cases\<close>

lemma filter_key_scan:
  "filter (\<lambda>x. checkpoint_key x = k) (checkpoints db) = [r] \<Longrightarrow>
   filter (\<lambda>x. checkpoint_key x = k) (scan_checkpoints db) = [r]"
  by (simp add: scan_checkpoints_def filter_sort)

lemma getTuple_query_exact:
  "getTuple_query db (Some t) (Some n) (Some (Some i)) =
     filter (\<lambda>x. checkpoint_key x = (t, n, i)) (scan_checkpoints db)"
  by (auto simp: getTuple_query_def Let_def sql_eq_def checkpoint_key_def intro: filter_cong)

text \<open>
  C1, for a non-empty checkpoint id: for a checkpoint \<open>C\<close> with a non-empty id and a
  current version (\<open>v\<close> at least 4) and metadata \<open>M\<close> that the serializer encodes
  under one type tag and decodes back to themselves, \<open>put\<close> under a key with a non-empty thread id succeeds, and
  \<open>getTuple\<close> on the config that \<open>put\<close> returned yields a tuple whose checkpoint is
  \<open>C\<close> and whose metadata is \<open>M\<close>.
\<close>

theorem put_getTuple_roundtrip:
  assumes c: "thread_id c = Str t" "t \<noteq> []"
    and idne: "ckpt_id C \<noteq> []"
    and cur: "4 \<le> ckpt_v C"
    and dc: "dumps_checkpoint e (copyCheckpoint e C) = (ty, sc)"
    and dm: "dumps_metadata e M = (ty, sm)"
    and lc: "loads_checkpoint e ty sc = C"
    and lm: "loads_metadata e ty sm = M"
  shows "\<exists>cfg' db' tup. put e db (Some c) C M = Inr (cfg', db') \<and>
           getTuple e db' cfg' = Inr (Some tup) \<and>
           tuple_checkpoint tup = C \<and> tuple_metadata tup = M \<and> tuple_config tup = cfg'"
proof -
  obtain n where n: "nullish_or (checkpoint_ns c) (Str []) = Str n"
    using nullish_or_Str by blast
  let ?c' = "\<lparr>thread_id = Str t, checkpoint_ns = Str n, checkpoint_id = Str (ckpt_id C)\<rparr>"
  let ?r = "put_row t (Str n) (ckpt_id C) (checkpoint_id c) ty sc sm"
  let ?db' = "insert_or_replace_checkpoint ?r db"
  have ty: "fst (dumps_checkpoint e (copyCheckpoint e C)) = fst (dumps_metadata e M)"
    by (simp add: dc dm)
  have p: "put e db (Some c) C M = Inr (Some ?c', ?db')"
    using put_success [OF c ty, of db] by (simp add: n dc dm)
  have "filter (\<lambda>x. checkpoint_key x = (t, n, ckpt_id C)) (checkpoints ?db') = [?r]"
    using filter_key_insert_or_replace [of ?r db] by (simp add: checkpoint_key_put_row)
  then have q: "getTuple_query ?db' (Some t) (Some n) (Some (Some (ckpt_id C))) = [?r]"
    by (simp add: getTuple_query_exact filter_key_scan)
  have args: "ns_arg ?c' = Some n" "id_arg ?c' = Some (Some (ckpt_id C))"
    using idne by (simp_all add: ns_arg_def id_arg_def)
  have g: "getTuple e ?db' (Some ?c') = Inr (Some (getTuple_result e ?db' (Some ?c') ?r))"
    using getTuple_unfold [of ?c' t e ?db'] by (simp add: args q)
  have dec: "decode_checkpoint e ?db' ?r = C"
    using cur lc
    by (simp add: decode_checkpoint_def row_type_or_json_def put_row_def Let_def
          split: option.splits)
  have met: "decode_metadata e ?r = M"
    using lm by (simp add: decode_metadata_def row_type_or_json_def put_row_def)
  have cfg: "final_config (Some ?c') ?r = Some ?c'"
    using idne by (simp add: final_config_def config_or_empty_def)
  show ?thesis
    using p g dec met cfg by (simp add: getTuple_result_def)
qed

theorem put_getTuple_roundtrip_witness:
  "\<exists>db' tup.
     put (demo_env True) one_store (partition_config ''t1'' [] Undefined)
       (demo_checkpoint ''a'' 4) ''m'' = Inr (partition_config ''t1'' [] (Str ''a''), db') \<and>
     getTuple (demo_env True) db' (partition_config ''t1'' [] (Str ''a'')) = Inr (Some tup) \<and>
     tuple_checkpoint tup = demo_checkpoint ''a'' 4 \<and> tuple_metadata tup = ''m''"
proof -
  let ?c = "\<lparr>thread_id = Str ''t1'', checkpoint_ns = Str [], checkpoint_id = Undefined\<rparr>"
  have "\<exists>cfg' db' tup.
     put (demo_env True) one_store (Some ?c) (demo_checkpoint ''a'' 4) ''m'' = Inr (cfg', db') \<and>
     getTuple (demo_env True) db' cfg' = Inr (Some tup) \<and>
     tuple_checkpoint tup = demo_checkpoint ''a'' 4 \<and> tuple_metadata tup = ''m'' \<and>
     tuple_config tup = cfg'"
    by (rule put_getTuple_roundtrip [where t = "''t1''" and ty = "''json''" and sc = "''Ca''"
          and sm = "''m''"])
       (simp_all add: demo_env_def demo_checkpoint_def)
  moreover have "map_sum id fst
      (put (demo_env True) one_store (Some ?c) (demo_checkpoint ''a'' 4) ''m'')
      = Inr (partition_config ''t1'' [] (Str ''a''))"
    by (simp add: put_def demo_env_def demo_checkpoint_def partition_config_def Let_def)
  ultimately show ?thesis
    by (auto simp: partition_config_def)
qed

text \<open>
  C1 fails for a checkpoint whose id is the empty string: \<open>getTuple\<close> takes an
  empty checkpoint id for a missing one and returns the latest checkpoint of the partition,
  here \<open>b\<close>.
\<close>

theorem put_getTuple_empty_id_counterexample:
  "map_sum id fst
     (put (demo_env True) one_store (partition_config ''t1'' [] Undefined)
        (demo_checkpoint [] 4) ''m'')
     = Inr (partition_config ''t1'' [] (Str [])) \<and>
   loads_checkpoint (demo_env True) ''json''
     (snd (dumps_checkpoint (demo_env True) (demo_checkpoint [] 4))) = demo_checkpoint [] 4 \<and>
   map_sum id (map_option tuple_checkpoint)
     (getTuple (demo_env True)
        (store_after (put (demo_env True) one_store (partition_config ''t1'' [] Undefined)
           (demo_checkpoint [] 4) ''m''))
        (partition_config ''t1'' [] (Str [])))
     = Inr (Some (demo_checkpoint ''b'' 4)) \<and>
   demo_checkpoint ''b'' 4 \<noteq> demo_checkpoint [] 4"
  by code_simp

text \<open>
  C9, evaluated: two threads hold one checkpoint each in namespace \<open>x\<close>. Without a
  thread id, \<open>list\<close> yields both. With the empty string as thread id no thread clause is
  written, but the empty string stays in the argument list: a strict executor rejects the
  statement, and a lenient one binds the empty string to the namespace placeholder and
  finds nothing.
\<close>

theorem list_empty_thread_id_misbinds:
  "map_sum id (map tuple_checkpoint_id)
     (list_checkpoints (demo_env True) two_threads_store
        (Some \<lparr>thread_id = Undefined, checkpoint_ns = Str ''x'', checkpoint_id = Undefined\<rparr>)
        no_options) = Inr [''c2'', ''c1''] \<and>
   map_sum id (map tuple_checkpoint_id)
     (list_checkpoints (demo_env True) two_threads_store
        (Some \<lparr>thread_id = Str [], checkpoint_ns = Str ''x'', checkpoint_id = Undefined\<rparr>)
        no_options) = Inl BackendError \<and>
   map_sum id (map tuple_checkpoint_id)
     (list_checkpoints (demo_env False) two_threads_store
        (Some \<lparr>thread_id = Str [], checkpoint_ns = Str ''x'', checkpoint_id = Undefined\<rparr>)
        no_options) = Inr []"
  by code_simp

section \<open>The primary key of the checkpoints table\<close>

text \<open>
  The statements of the class keep the primary keys of the checkpoints table distinct,
  starting from the empty store.
\<close>

lemma distinct_keys_empty: "distinct (map checkpoint_key (checkpoints empty_store))"
  by (simp add: empty_store_def)

lemma distinct_keys_insert_or_replace:
  assumes "distinct (map checkpoint_key (checkpoints db))"
  shows "distinct (map checkpoint_key (checkpoints (insert_or_replace_checkpoint r db)))"
proof -
  have "distinct (map checkpoint_key
          (filter (\<lambda>x. checkpoint_key x \<noteq> checkpoint_key r) (checkpoints db)))"
    using assms by (rule distinct_map_filter)
  then show ?thesis
    by (auto simp: checkpoints_insert_or_replace)
qed

lemma distinct_keys_put:
  assumes "distinct (map checkpoint_key (checkpoints db))"
    and "put e db config C M = Inr (cfg', db')"
  shows "distinct (map checkpoint_key (checkpoints db'))"
proof -
  from assms(2) obtain r where "db' = insert_or_replace_checkpoint r db"
    by (auto simp: put_def Let_def split: option.splits if_splits)
  with assms(1) show ?thesis
    by (simp add: distinct_keys_insert_or_replace)
qed

lemma distinct_keys_putWrites:
  assumes "distinct (map checkpoint_key (checkpoints db))"
    and "putWrites e db config ws task = Inr db'"
  shows "distinct (map checkpoint_key (checkpoints db'))"
  using assms by (auto simp: putWrites_def checkpoints_batch split: option.splits if_splits)

lemma distinct_keys_deleteThread:
  assumes "distinct (map checkpoint_key (checkpoints db))"
  shows "distinct (map checkpoint_key (checkpoints (deleteThread db threadId)))"
  using assms by (simp add: deleteThread_def distinct_map_filter)

end
